theory Spec2Isabelle
  imports Main "HOL-Library.Char_ord" "HOL-Library.Sublist" "HOL-Library.Multiset"
begin

section \<open>Python strings\<close>

text \<open>
  The scanned text is modelled as a \<^typ>\<open>string\<close> of ASCII characters. The character
  classes below are the ASCII part of what Python's \<^verbatim>\<open>str\<close> methods and the
  \<^verbatim>\<open>re\<close> module use on \<^verbatim>\<open>str\<close> patterns.
\<close>

definition is_word :: "char \<Rightarrow> bool" where
  \<comment> \<open>\<^verbatim>\<open>\w\<close>\<close>
  "is_word ch = ((CHR ''a'' \<le> ch \<and> ch \<le> CHR ''z'') \<or> (CHR ''A'' \<le> ch \<and> ch \<le> CHR ''Z'')
      \<or> (CHR ''0'' \<le> ch \<and> ch \<le> CHR ''9'') \<or> ch = CHR ''_'')"

definition is_space :: "char \<Rightarrow> bool" where
  \<comment> \<open>\<^verbatim>\<open>\s\<close> and \<^verbatim>\<open>str.isspace\<close>: space, tab to carriage return, the four separators\<close>
  "is_space ch = (ch = CHR '' '' \<or> (CHR 0x09 \<le> ch \<and> ch \<le> CHR 0x0D)
      \<or> (CHR 0x1C \<le> ch \<and> ch \<le> CHR 0x1F))"

definition newline :: char where
  "newline = CHR 0x0A"

definition ascii_lower :: "char \<Rightarrow> char" where
  "ascii_lower ch = (if CHR ''A'' \<le> ch \<and> ch \<le> CHR ''Z'' then char_of (of_char ch + (32::nat)) else ch)"

definition ascii_upper :: "char \<Rightarrow> char" where
  "ascii_upper ch = (if CHR ''a'' \<le> ch \<and> ch \<le> CHR ''z'' then char_of (of_char ch - (32::nat)) else ch)"

definition lower :: "string \<Rightarrow> string" where
  \<comment> \<open>\<^verbatim>\<open>s.lower()\<close>\<close>
  "lower s = map ascii_lower s"

definition capitalize :: "string \<Rightarrow> string" where
  \<comment> \<open>\<^verbatim>\<open>s.capitalize()\<close>: first character upper case, the rest lower case\<close>
  "capitalize s = (case s of [] \<Rightarrow> [] | x # xs \<Rightarrow> ascii_upper x # map ascii_lower xs)"

definition strip :: "string \<Rightarrow> string" where
  \<comment> \<open>\<^verbatim>\<open>s.strip()\<close>\<close>
  "strip s = rev (dropWhile is_space (rev (dropWhile is_space s)))"

fun split_on :: "char \<Rightarrow> string \<Rightarrow> string list" where
  \<comment> \<open>\<^verbatim>\<open>s.split(sep)\<close> for a separator of one character\<close>
  "split_on sep [] = [[]]"
| "split_on sep (x # xs) =
     (if x = sep then [] # split_on sep xs
      else (case split_on sep xs of [] \<Rightarrow> [[x]] | y # ys \<Rightarrow> (x # y) # ys))"

fun split_ws :: "string \<Rightarrow> string \<Rightarrow> string list" where
  \<comment> \<open>\<^verbatim>\<open>s.split()\<close>: the runs of non-whitespace; the first argument is the
      run being read, reversed\<close>
  "split_ws cur [] = (if cur = [] then [] else [rev cur])"
| "split_ws cur (x # xs) =
     (if is_space x then (if cur = [] then split_ws [] xs else rev cur # split_ws [] xs)
      else split_ws (x # cur) xs)"

definition split_whitespace :: "string \<Rightarrow> string list" where
  "split_whitespace s = split_ws [] s"

fun join :: "string \<Rightarrow> string list \<Rightarrow> string" where
  \<comment> \<open>\<^verbatim>\<open>sep.join(xs)\<close>\<close>
  "join sep [] = []"
| "join sep [x] = x"
| "join sep (x # xs) = x @ sep @ join sep xs"

definition startswith :: "string \<Rightarrow> string \<Rightarrow> bool" where
  \<comment> \<open>\<^verbatim>\<open>s.startswith(p)\<close>\<close>
  "startswith s p = (take (length p) s = p)"

fun contains :: "string \<Rightarrow> string \<Rightarrow> bool" where
  \<comment> \<open>\<^verbatim>\<open>sub in s\<close>\<close>
  "contains sub [] = (sub = [])"
| "contains sub (x # xs) = (startswith (x # xs) sub \<or> contains sub xs)"

section \<open>The regular expressions of Python's re, as far as the scripts use them\<close>

text \<open>
  A backtracking matcher with Python's priorities: an alternation tries its left branch
  first, a greedy repetition tries one more round before stopping, a lazy one stops before
  trying one more round, and the first complete match found is the result. The
  continuation receives the rest of the text and the groups captured so far. A round of a
  repetition that consumes nothing is not repeated (no pattern of the scripts has one).
\<close>

datatype regex =
    Sym "char \<Rightarrow> bool"
  | Eps
  | Seq regex regex
  | Alt regex regex
  | Star regex
  | Lazy regex
  | Grp nat regex

type_synonym groups = "nat \<rightharpoonup> string"

fun rmatch :: "regex \<Rightarrow> string \<Rightarrow> groups \<Rightarrow> (string \<Rightarrow> groups \<Rightarrow> 'a option) \<Rightarrow> 'a option" where
  "rmatch (Sym P) s g k = (case s of [] \<Rightarrow> None | x # xs \<Rightarrow> if P x then k xs g else None)"
| "rmatch Eps s g k = k s g"
| "rmatch (Seq a b) s g k = rmatch a s g (\<lambda>s' g'. rmatch b s' g' k)"
| "rmatch (Alt a b) s g k = (case rmatch a s g k of Some r \<Rightarrow> Some r | None \<Rightarrow> rmatch b s g k)"
| "rmatch (Star a) s g k =
     (case rmatch a s g (\<lambda>s' g'. if length s' < length s then rmatch (Star a) s' g' k else None) of
        Some r \<Rightarrow> Some r
      | None \<Rightarrow> k s g)"
| "rmatch (Lazy a) s g k =
     (case k s g of
        Some r \<Rightarrow> Some r
      | None \<Rightarrow> rmatch a s g (\<lambda>s' g'. if length s' < length s then rmatch (Lazy a) s' g' k else None))"
| "rmatch (Grp n a) s g k =
     rmatch a s g (\<lambda>s' g'. k s' (g'(n \<mapsto> take (length s - length s') s)))"

fun lit :: "string \<Rightarrow> regex" where
  \<comment> \<open>a literal text\<close>
  "lit [] = Eps"
| "lit [x] = Sym (\<lambda>ch. ch = x)"
| "lit (x # xs) = Seq (Sym (\<lambda>ch. ch = x)) (lit xs)"

fun seqs :: "regex list \<Rightarrow> regex" where
  "seqs [] = Eps"
| "seqs [r] = r"
| "seqs (r # rs) = Seq r (seqs rs)"

fun alts :: "regex list \<Rightarrow> regex" where
  "alts [] = Eps"
| "alts [r] = r"
| "alts (r # rs) = Alt r (alts rs)"

definition plus :: "regex \<Rightarrow> regex" where
  \<comment> \<open>\<^verbatim>\<open>r+\<close>\<close>
  "plus r = Seq r (Star r)"

definition opt :: "regex \<Rightarrow> regex" where
  \<comment> \<open>\<^verbatim>\<open>r?\<close>\<close>
  "opt r = Alt r Eps"

definition word :: regex where
  "word = Sym is_word"

definition space :: regex where
  "space = Sym is_space"

definition dot :: regex where
  \<comment> \<open>\<^verbatim>\<open>.\<close> without DOTALL\<close>
  "dot = Sym (\<lambda>ch. ch \<noteq> newline)"

definition dot_all :: regex where
  \<comment> \<open>\<^verbatim>\<open>.\<close> under DOTALL\<close>
  "dot_all = Sym (\<lambda>ch. True)"

record rematch =
  m_start :: nat
  m_text :: string
  m_rest :: string
  m_groups :: groups

fun re_search_from :: "regex \<Rightarrow> nat \<Rightarrow> string \<Rightarrow> rematch option" where
  \<comment> \<open>the leftmost match, in the text that begins at offset \<open>i\<close>\<close>
  "re_search_from r i s =
     (case rmatch r s Map.empty (\<lambda>s' g. Some (s', g)) of
        Some (s', g) \<Rightarrow>
          Some \<lparr>m_start = i, m_text = take (length s - length s') s, m_rest = s', m_groups = g\<rparr>
      | None \<Rightarrow> (case s of [] \<Rightarrow> None | x # xs \<Rightarrow> re_search_from r (Suc i) xs))"

definition re_search :: "regex \<Rightarrow> string \<Rightarrow> rematch option" where
  \<comment> \<open>\<^verbatim>\<open>re.search(r, s)\<close>\<close>
  "re_search r s = re_search_from r 0 s"

definition re_matches :: "regex \<Rightarrow> string \<Rightarrow> bool" where
  \<comment> \<open>\<^verbatim>\<open>re.search(r, s)\<close> read as a truth value\<close>
  "re_matches r s = (re_search r s \<noteq> None)"

definition group :: "rematch \<Rightarrow> nat \<Rightarrow> string" where
  \<comment> \<open>\<^verbatim>\<open>m.group(n)\<close> of a group that took part in the match\<close>
  "group m n = (case m_groups m n of None \<Rightarrow> [] | Some t \<Rightarrow> t)"

function re_finditer :: "regex \<Rightarrow> string \<Rightarrow> rematch list" where
  \<comment> \<open>\<^verbatim>\<open>re.finditer(r, s)\<close>: the successive matches that do not overlap; offsets
      are relative to the text still to be scanned\<close>
  "re_finditer r s =
     (case re_search r s of
        None \<Rightarrow> []
      | Some m \<Rightarrow>
          (let rest = (if m_text m = [] then drop 1 (m_rest m) else m_rest m)
           in if length rest < length s then m # re_finditer r rest else [m]))"
  by pat_completeness auto
termination
  by (relation "measure (\<lambda>(r, s). length s)") auto

definition re_findall :: "regex \<Rightarrow> string \<Rightarrow> string list" where
  \<comment> \<open>\<^verbatim>\<open>re.findall(r, s)\<close> for a pattern with one group\<close>
  "re_findall r s = map (\<lambda>m. group m 1) (re_finditer r s)"

definition re_findall0 :: "regex \<Rightarrow> string \<Rightarrow> string list" where
  \<comment> \<open>\<^verbatim>\<open>re.findall(r, s)\<close> for a pattern without groups\<close>
  "re_findall0 r s = map m_text (re_finditer r s)"

section \<open>scan_events.py: the event scanner\<close>

record field_info =
  f_name :: string
  f_type :: string
  f_javadoc :: "string option"
  f_annotations :: "string list"

record event_info =
  e_name :: string
  e_package :: string
  e_file_path :: string
  e_bounded_context :: string
  e_javadoc :: "string option"
  e_fields :: "field_info list"
  e_extends :: "string option"
  e_annotations :: "string list"
  e_is_record :: bool

text \<open>
  A file of the scanned tree: its path as the walker gives it, the same path relative to
  the source directory, and its text (\<open>None\<close> when reading it raises).
\<close>

record java_file =
  path :: string
  rel_path :: string
  text_of :: "string option"

definition EVENT_PATTERNS :: "regex list" where
  "EVENT_PATTERNS =
     [seqs [lit ''class'', plus space, plus word, lit ''Event'', plus space, lit ''extends''],
      seqs [lit ''class'', plus space, plus word, lit ''Event'', plus space, lit ''implements''],
      seqs [lit ''record'', plus space, plus word, lit ''Event'', Star space, lit ''(''],
      lit ''@DomainEvent'']"

definition is_event_package :: "string \<Rightarrow> bool" where
  "is_event_package path_str =
     list_ex (\<lambda>pattern. contains pattern (lower path_str))
       [''/event/'', ''/events/'', ''domain/event'', ''domain/events'']"

definition is_event_class :: "string \<Rightarrow> bool" where
  "is_event_class content = list_ex (\<lambda>pattern. re_matches pattern content) EVENT_PATTERNS"

definition package_re :: regex where
  \<comment> \<open>\<^verbatim>\<open>package\s+([\w.]+);\<close>\<close>
  "package_re = seqs [lit ''package'', plus space,
     Grp 1 (plus (Sym (\<lambda>ch. is_word ch \<or> ch = CHR ''.''))), lit '';'']"

definition extract_package :: "string \<Rightarrow> string" where
  "extract_package content =
     (case re_search package_re content of Some m \<Rightarrow> group m 1 | None \<Rightarrow> [])"

definition class_name_re :: regex where
  \<comment> \<open>\<^verbatim>\<open>(?:public\s+)?(?:final\s+)?class\s+(\w+)\<close>\<close>
  "class_name_re = seqs [opt (Seq (lit ''public'') (plus space)),
     opt (Seq (lit ''final'') (plus space)), lit ''class'', plus space, Grp 1 (plus word)]"

definition record_name_re :: regex where
  \<comment> \<open>\<^verbatim>\<open>(?:public\s+)?record\s+(\w+)\<close>\<close>
  "record_name_re = seqs [opt (Seq (lit ''public'') (plus space)),
     lit ''record'', plus space, Grp 1 (plus word)]"

definition extract_class_name :: "string \<Rightarrow> string option" where
  "extract_class_name content =
     (case re_search class_name_re content of
        Some m \<Rightarrow> Some (group m 1)
      | None \<Rightarrow>
          (case re_search record_name_re content of
             Some m \<Rightarrow> Some (group m 1)
           | None \<Rightarrow> None))"

definition javadoc_re :: regex where
  \<comment> \<open>\<^verbatim>\<open>/\*\*(.*?)\*/\<close> under DOTALL\<close>
  "javadoc_re = seqs [lit ''/**'', Grp 1 (Lazy dot_all), lit ''*/'']"

definition javadoc_line :: "string \<Rightarrow> string" where
  \<comment> \<open>one round of the cleaning loop: the line stripped, without its leading star\<close>
  "javadoc_line l =
     (let line = strip l
      in if startswith line ''*'' then strip (drop 1 line) else line)"

definition javadoc_prose :: "string \<Rightarrow> string" where
  \<comment> \<open>the cleaning loop over the lines of a comment body, and the final join\<close>
  "javadoc_prose javadoc_text =
     strip (join '' ''
       (filter (\<lambda>line. line \<noteq> [] \<and> \<not> startswith line ''@'')
          (map javadoc_line (split_on newline javadoc_text))))"

definition last_javadoc :: "string \<Rightarrow> string option" where
  \<comment> \<open>the last doc comment of a text, cleaned\<close>
  "last_javadoc before =
     (case re_finditer javadoc_re before of
        [] \<Rightarrow> None
      | ms \<Rightarrow> Some (javadoc_prose (group (last ms) 1)))"

definition class_decl_re :: "string \<Rightarrow> regex" where
  \<comment> \<open>\<^verbatim>\<open>(?:class|record)\s+{class_name}\<close>\<close>
  "class_decl_re class_name = seqs [Alt (lit ''class'') (lit ''record''), plus space, lit class_name]"

definition extract_class_javadoc :: "string \<Rightarrow> string \<Rightarrow> string option" where
  "extract_class_javadoc content class_name =
     (case re_search (class_decl_re class_name) content of
        None \<Rightarrow> None
      | Some class_match \<Rightarrow> last_javadoc (take (m_start class_match) content))"

definition field_decl_re :: "string \<Rightarrow> regex" where
  \<comment> \<open>\<^verbatim>\<open>(\w+)\s+{field_name}\s*;\<close>\<close>
  "field_decl_re field_name = seqs [Grp 1 (plus word), plus space, lit field_name, Star space, lit '';'']"

definition extract_field_javadoc :: "string \<Rightarrow> string \<Rightarrow> string option" where
  "extract_field_javadoc content field_name =
     (case re_search (field_decl_re field_name) content of
        None \<Rightarrow> None
      | Some field_match \<Rightarrow> last_javadoc (take (m_start field_match) content))"

definition type_chars :: regex where
  \<comment> \<open>\<^verbatim>\<open>[\w<>,\s]\<close>\<close>
  "type_chars = Sym (\<lambda>ch. is_word ch \<or> ch = CHR ''<'' \<or> ch = CHR ''>'' \<or> ch = CHR '','' \<or> is_space ch)"

definition annotation_args :: regex where
  \<comment> \<open>\<^verbatim>\<open>(?:\([^)]*\))?\<close>\<close>
  "annotation_args = opt (seqs [lit ''('', Star (Sym (\<lambda>ch. ch \<noteq> CHR '')'')), lit '')''])"

definition field_annotation_re :: "string \<Rightarrow> regex" where
  \<comment> \<open>\<^verbatim>\<open>(@\w+(?:\([^)]*\))?)\s+(?:private\s+)?(?:final\s+)?[\w<>,\s]+\s+{field_name}\s*;\<close>\<close>
  "field_annotation_re field_name =
     seqs [Grp 1 (seqs [lit ''@'', plus word, annotation_args]), plus space,
       opt (Seq (lit ''private'') (plus space)), opt (Seq (lit ''final'') (plus space)),
       plus type_chars, plus space, lit field_name, Star space, lit '';'']"

definition extract_field_annotations :: "string \<Rightarrow> string \<Rightarrow> string list" where
  "extract_field_annotations content field_name =
     re_findall (field_annotation_re field_name) content"

definition record_params_re :: regex where
  \<comment> \<open>\<^verbatim>\<open>record\s+\w+\s*\((.*?)\)\<close> under DOTALL\<close>
  "record_params_re = seqs [lit ''record'', plus space, plus word, Star space, lit ''('',
     Grp 1 (Lazy dot_all), lit '')'']"

definition private_field_re :: regex where
  \<comment> \<open>\<^verbatim>\<open>private\s+(?:final\s+)?([\w<>,\s]+)\s+(\w+)\s*;\<close>\<close>
  "private_field_re = seqs [lit ''private'', plus space, opt (Seq (lit ''final'') (plus space)),
     Grp 1 (plus type_chars), plus space, Grp 2 (plus word), Star space, lit '';'']"

fun record_fields :: "string list \<Rightarrow> field_info list" where
  \<comment> \<open>the loop over \<^verbatim>\<open>params.split(',')\<close>\<close>
  "record_fields [] = []"
| "record_fields (p # ps) =
     (let param = strip p
      in if param \<noteq> [] then
           (let parts = split_whitespace param
            in if length parts \<ge> 2 then
                 \<lparr>f_name = last parts, f_type = join '' '' (butlast parts),
                  f_javadoc = None, f_annotations = []\<rparr> # record_fields ps
               else record_fields ps)
         else record_fields ps)"

definition class_field :: "string \<Rightarrow> rematch \<Rightarrow> field_info" where
  \<comment> \<open>the body of the loop over the field declarations of an ordinary class\<close>
  "class_field content m =
     (let field_type = strip (group m 1);
          field_name = group m 2
      in \<lparr>f_name = field_name, f_type = field_type,
          f_javadoc = extract_field_javadoc content field_name,
          f_annotations = extract_field_annotations content field_name\<rparr>)"

definition extract_fields :: "string \<Rightarrow> bool \<Rightarrow> field_info list" where
  "extract_fields content is_record =
     (if is_record then
        (case re_search record_params_re content of
           Some m \<Rightarrow> record_fields (split_on (CHR '','') (group m 1))
         | None \<Rightarrow> [])
      else map (class_field content) (re_finditer private_field_re content))"

definition extends_re :: "string \<Rightarrow> regex" where
  \<comment> \<open>\<^verbatim>\<open>class\s+{class_name}\s+extends\s+([\w<>]+)\<close>\<close>
  "extends_re class_name = seqs [lit ''class'', plus space, lit class_name, plus space,
     lit ''extends'', plus space,
     Grp 1 (plus (Sym (\<lambda>ch. is_word ch \<or> ch = CHR ''<'' \<or> ch = CHR ''>'')))]"

definition extract_extends :: "string \<Rightarrow> string \<Rightarrow> string option" where
  "extract_extends content class_name =
     (case re_search (extends_re class_name) content of
        Some m \<Rightarrow> Some (group m 1)
      | None \<Rightarrow> None)"

definition class_annotation_re :: regex where
  \<comment> \<open>\<^verbatim>\<open>@(\w+)(?:\([^)]*\))?\<close>\<close>
  "class_annotation_re = seqs [lit ''@'', Grp 1 (plus word), annotation_args]"

definition extract_class_annotations :: "string \<Rightarrow> string \<Rightarrow> string list" where
  "extract_class_annotations content class_name =
     (case re_search (class_decl_re class_name) content of
        None \<Rightarrow> []
      | Some class_match \<Rightarrow>
          (let start_pos = m_start class_match - 500;
               before_class = drop start_pos (take (m_start class_match) content)
           in re_findall0 class_annotation_re before_class))"

definition context_markers :: "string list" where
  "context_markers = [''domain'', ''event'', ''events'']"

function context_before_marker :: "string list \<Rightarrow> nat \<Rightarrow> string option" where
  \<comment> \<open>the \<^verbatim>\<open>for i, part in enumerate(parts)\<close> loop, from index \<open>i\<close> on;
      \<open>None\<close> when the loop ends without returning\<close>
  "context_before_marker parts i =
     (if i < length parts then
        (if parts ! i \<in> set context_markers then
           (if i > 0 then Some (capitalize (parts ! (i - 1)))
            else context_before_marker parts (Suc i))
         else context_before_marker parts (Suc i))
      else None)"
  by pat_completeness auto
termination
  by (relation "measure (\<lambda>(parts, i). length parts - i)") auto

declare context_before_marker.simps [simp del]

definition infer_bounded_context :: "string \<Rightarrow> string" where
  "infer_bounded_context package =
     (let parts = split_on (CHR ''.'') package
      in case context_before_marker parts 0 of
           Some context \<Rightarrow> context
         | None \<Rightarrow>
             (let meaningful_parts =
                    filter (\<lambda>p. p \<notin> set [''com'', ''org'', ''net'', ''domain'', ''event'', ''events'']) parts
              in if meaningful_parts \<noteq> [] then capitalize (last meaningful_parts)
                 else ''Unknown''))"

definition parse_event_file :: "java_file \<Rightarrow> event_info option" where
  "parse_event_file f =
     (case text_of f of
        None \<Rightarrow> None
      | Some content \<Rightarrow>
          (if \<not> is_event_class content then None
           else
             (let package = extract_package content
              in case extract_class_name content of
                   None \<Rightarrow> None
                 | Some class_name \<Rightarrow>
                     (let javadoc = extract_class_javadoc content class_name;
                          is_record = contains (''record '' @ class_name) content;
                          fields = extract_fields content is_record;
                          extends = extract_extends content class_name;
                          annotations = extract_class_annotations content class_name;
                          bounded_context = infer_bounded_context package
                      in Some \<lparr>e_name = class_name, e_package = package,
                               e_file_path = rel_path f, e_bounded_context = bounded_context,
                               e_javadoc = javadoc, e_fields = fields, e_extends = extends,
                               e_annotations = annotations, e_is_record = is_record\<rparr>))))"

fun scan :: "java_file list \<Rightarrow> event_info list" where
  \<comment> \<open>the loop of \<^verbatim>\<open>scan\<close> over the files in the order the walker lists them\<close>
  "scan [] = []"
| "scan (java_file # java_files) =
     (if is_event_package (path java_file) then
        (case parse_event_file java_file of
           Some event_info \<Rightarrow> event_info # scan java_files
         | None \<Rightarrow> scan java_files)
      else scan java_files)"

text \<open>
  The grouping rule in the words of the specification: the segment before the first marker
  segment that stands at a position greater than zero; failing that the last segment that
  is not a generic one; failing that the sentinel.
\<close>

definition bounded_context_spec :: "string \<Rightarrow> string" where
  "bounded_context_spec package =
     (let segments = split_on (CHR ''.'') package
      in case find (\<lambda>i. segments ! i \<in> {''domain'', ''event'', ''events''}) [1..<length segments] of
           Some i \<Rightarrow> capitalize (segments ! (i - 1))
         | None \<Rightarrow>
             (case filter (\<lambda>p. p \<notin> {''com'', ''org'', ''net'', ''domain'', ''event'', ''events''}) segments of
                [] \<Rightarrow> ''Unknown''
              | ms \<Rightarrow> capitalize (last ms)))"

definition json_summary_ok :: "event_info list \<Rightarrow> nat \<times> string list \<Rightarrow> bool" where
  \<comment> \<open>the summary block of \<^verbatim>\<open>save_to_json\<close>: the count of the events and
      \<^verbatim>\<open>list(set(...))\<close> of their grouping labels, a list of the distinct
      labels in the order in which the interpreter happens to iterate the set\<close>
  "json_summary_ok events summary =
     (fst summary = length events \<and> distinct (snd summary)
      \<and> set (snd summary) = set (map e_bounded_context events))"

section \<open>analyze_project.py: components and dependency flows\<close>

record external_entity =
  ee_name :: string
  ee_type :: string
  ee_references :: "string list"

record process =
  p_name :: string
  p_class_name :: string
  p_file_path :: string
  p_type :: string
  p_methods :: "string list"
  p_dependencies :: "string list"

record data_store =
  ds_name :: string
  ds_type :: string
  ds_entity_class :: string
  ds_file_path :: string

record data_flow =
  from_component :: string
  to_component :: string
  data_type :: string
  flow_type :: string

record analyzer =
  external_entities :: "external_entity list"
  processes :: "process list"
  data_stores :: "data_store list"
  data_flows :: "data_flow list"

definition new_analyzer :: analyzer where
  "new_analyzer = \<lparr>external_entities = [], processes = [], data_stores = [], data_flows = []\<rparr>"

definition public_class_re :: regex where
  \<comment> \<open>\<^verbatim>\<open>public\s+(?:class|interface)\s+(\w+)\<close>\<close>
  "public_class_re = seqs [lit ''public'', plus space, Alt (lit ''class'') (lit ''interface''),
     plus space, Grp 1 (plus word)]"

definition controller_marker :: regex where
  "controller_marker = Alt (lit ''@RestController'') (lit ''@Controller'')"

definition service_marker :: regex where
  "service_marker = lit ''@Service''"

definition repository_marker :: regex where
  "repository_marker = lit ''@Repository''"

definition entity_marker :: regex where
  "entity_marker = Alt (lit ''@Entity'') (lit ''@Table'')"

definition client_marker :: regex where
  "client_marker = Alt (lit ''@FeignClient'') (lit ''@RestTemplate'')"

definition mapping_method_re :: regex where
  \<comment> \<open>\<^verbatim>\<open>@(?:Get|Post|Put|Delete|Patch)Mapping.*?\n.*?public\s+\w+\s+(\w+)\s*\(\<close> under DOTALL\<close>
  "mapping_method_re = seqs [lit ''@'',
     alts [lit ''Get'', lit ''Post'', lit ''Put'', lit ''Delete'', lit ''Patch''], lit ''Mapping'',
     Lazy dot_all, lit [newline], Lazy dot_all, lit ''public'', plus space, plus word, plus space,
     Grp 1 (plus word), Star space, lit ''('']"

definition autowired_re :: regex where
  \<comment> \<open>\<^verbatim>\<open>@Autowired.*?\n.*?private\s+(\w+)\<close> under DOTALL\<close>
  "autowired_re = seqs [lit ''@Autowired'', Lazy dot_all, lit [newline], Lazy dot_all,
     lit ''private'', plus space, Grp 1 (plus word)]"

definition public_method_re :: regex where
  \<comment> \<open>\<^verbatim>\<open>public\s+\w+\s+(\w+)\s*\(\<close>\<close>
  "public_method_re = seqs [lit ''public'', plus space, plus word, plus space,
     Grp 1 (plus word), Star space, lit ''('']"

definition repository_method_re :: regex where
  \<comment> \<open>\<^verbatim>\<open>(?:find|save|delete|update)\w+\<close>\<close>
  "repository_method_re =
     Seq (alts [lit ''find'', lit ''save'', lit ''delete'', lit ''update'']) (plus word)"

definition table_name_re :: regex where
  \<comment> \<open>\<^verbatim>\<open>@Table\(name\s*=\s*"(\w+)"\<close>\<close>
  "table_name_re = seqs [lit ''@Table(name'', Star space, lit ''='', Star space,
     lit [CHR 0x22], Grp 1 (plus word), lit [CHR 0x22]]"

definition feign_arg_re :: "string \<Rightarrow> regex" where
  \<comment> \<open>\<^verbatim>\<open>@FeignClient\(.*?KEY\s*=\s*"([^"]+)"\<close> for the keys url and name\<close>
  "feign_arg_re key = seqs [lit ''@FeignClient('', Lazy dot, lit key, Star space, lit ''='',
     Star space, lit [CHR 0x22], Grp 1 (plus (Sym (\<lambda>ch. ch \<noteq> CHR 0x22))), lit [CHR 0x22]]"

definition analyze_controller :: "string \<Rightarrow> string \<Rightarrow> string \<Rightarrow> analyzer \<Rightarrow> analyzer" where
  "analyze_controller class_name content file_path a =
     (let methods = re_findall mapping_method_re content;
          dependencies = re_findall autowired_re content;
          process = \<lparr>p_name = class_name, p_class_name = class_name, p_file_path = file_path,
                     p_type = ''controller'', p_methods = methods, p_dependencies = dependencies\<rparr>;
          a1 = a\<lparr>processes := processes a @ [process]\<rparr>
      in if class_name \<notin> set (map ee_name (external_entities a1)) then
           a1\<lparr>external_entities := external_entities a1 @
                 [\<lparr>ee_name = ''API Client ('' @ class_name @ '')'', ee_type = ''client'',
                   ee_references = [class_name]\<rparr>]\<rparr>
         else a1)"

definition analyze_service :: "string \<Rightarrow> string \<Rightarrow> string \<Rightarrow> analyzer \<Rightarrow> analyzer" where
  "analyze_service class_name content file_path a =
     (let methods = re_findall public_method_re content;
          dependencies = re_findall autowired_re content;
          process = \<lparr>p_name = class_name, p_class_name = class_name, p_file_path = file_path,
                     p_type = ''service'', p_methods = take 10 methods,
                     p_dependencies = dependencies\<rparr>
      in a\<lparr>processes := processes a @ [process]\<rparr>)"

definition analyze_repository :: "string \<Rightarrow> string \<Rightarrow> string \<Rightarrow> analyzer \<Rightarrow> analyzer" where
  \<comment> \<open>\<^verbatim>\<open>list(set(methods))\<close> lists the distinct names in the iteration order of
      the set; the model lists them in the order \<^const>\<open>remdups\<close> leaves\<close>
  "analyze_repository class_name content file_path a =
     (let methods = re_findall0 repository_method_re content;
          process = \<lparr>p_name = class_name, p_class_name = class_name, p_file_path = file_path,
                     p_type = ''repository'', p_methods = remdups methods,
                     p_dependencies = []\<rparr>
      in a\<lparr>processes := processes a @ [process]\<rparr>)"

definition analyze_entity :: "string \<Rightarrow> string \<Rightarrow> string \<Rightarrow> analyzer \<Rightarrow> analyzer" where
  "analyze_entity class_name content file_path a =
     (let table_name = (case re_search table_name_re content of
                          Some table_match \<Rightarrow> group table_match 1
                        | None \<Rightarrow> lower class_name);
          data_store = \<lparr>ds_name = table_name, ds_type = ''database'',
                        ds_entity_class = class_name, ds_file_path = file_path\<rparr>
      in a\<lparr>data_stores := data_stores a @ [data_store]\<rparr>)"

definition analyze_external_client :: "string \<Rightarrow> string \<Rightarrow> string \<Rightarrow> analyzer \<Rightarrow> analyzer" where
  "analyze_external_client class_name content file_path a =
     (let url_match = re_search (feign_arg_re ''url'') content;
          service_name = re_search (feign_arg_re ''name'') content;
          name = (case service_name of
                    Some m \<Rightarrow> group m 1
                  | None \<Rightarrow> (case url_match of Some m \<Rightarrow> group m 1 | None \<Rightarrow> class_name));
          external_entity = \<lparr>ee_name = name, ee_type = ''external_service'',
                             ee_references = [class_name]\<rparr>
      in a\<lparr>external_entities := external_entities a @ [external_entity]\<rparr>)"

definition analyze_file :: "analyzer \<Rightarrow> java_file \<Rightarrow> analyzer" where
  "analyze_file a f =
     (case text_of f of
        None \<Rightarrow> a
      | Some content \<Rightarrow>
          (case re_search public_class_re content of
             None \<Rightarrow> a
           | Some class_match \<Rightarrow>
               (let class_name = group class_match 1;
                    relative_path = rel_path f
                in if re_matches controller_marker content then
                     analyze_controller class_name content relative_path a
                   else if re_matches service_marker content then
                     analyze_service class_name content relative_path a
                   else if re_matches repository_marker content then
                     analyze_repository class_name content relative_path a
                   else if re_matches entity_marker content then
                     analyze_entity class_name content relative_path a
                   else if re_matches client_marker content then
                     analyze_external_client class_name content relative_path a
                   else a)))"

definition process_map :: "process list \<Rightarrow> (string \<rightharpoonup> process)" where
  \<comment> \<open>\<^verbatim>\<open>{p.class_name: p for p in self.processes}\<close>: a later process of the same
      name replaces an earlier one\<close>
  "process_map ps = foldl (\<lambda>m p. m(p_class_name p \<mapsto> p)) Map.empty ps"

definition flow_type_of :: "process \<Rightarrow> process \<Rightarrow> string" where
  "flow_type_of process target =
     (let flow_type = ''request''
      in if p_type process = ''controller'' \<and> p_type target = ''service'' then ''request''
         else if p_type process = ''service'' \<and> p_type target = ''repository'' then ''query''
         else flow_type)"

fun dependency_flows :: "(string \<rightharpoonup> process) \<Rightarrow> process \<Rightarrow> string list \<Rightarrow> data_flow list" where
  \<comment> \<open>the inner loop, over the dependencies of one process\<close>
  "dependency_flows pm process [] = []"
| "dependency_flows pm process (dep # deps) =
     (case pm dep of
        None \<Rightarrow> dependency_flows pm process deps
      | Some target \<Rightarrow>
          \<lparr>from_component = p_class_name process, to_component = p_class_name target,
           data_type = ''business_data'', flow_type = flow_type_of process target\<rparr>
          # dependency_flows pm process deps)"

fun process_flows :: "(string \<rightharpoonup> process) \<Rightarrow> process list \<Rightarrow> data_flow list" where
  \<comment> \<open>the outer loop, over the processes\<close>
  "process_flows pm [] = []"
| "process_flows pm (process # ps) =
     dependency_flows pm process (p_dependencies process) @ process_flows pm ps"

definition infer_data_flows :: "analyzer \<Rightarrow> analyzer" where
  "infer_data_flows a =
     a\<lparr>data_flows := data_flows a @ process_flows (process_map (processes a)) (processes a)\<rparr>"

definition analyze :: "java_file list \<Rightarrow> analyzer" where
  "analyze java_files = infer_data_flows (foldl analyze_file new_analyzer java_files)"

text \<open>
  The classifier in the words of the specification: a closed list of kinds in a fixed
  order of priority, each with its marker pattern; the kind of a text is the first kind of
  the list whose marker the text matches.
\<close>

datatype kind = Controller | Service | Repository | PersistedEntity | ExternalClient

fun marker :: "kind \<Rightarrow> regex" where
  "marker Controller = controller_marker"
| "marker Service = service_marker"
| "marker Repository = repository_marker"
| "marker PersistedEntity = entity_marker"
| "marker ExternalClient = client_marker"

definition first_kind :: "string \<Rightarrow> kind option" where
  "first_kind content =
     find (\<lambda>k. re_matches (marker k) content)
       [Controller, Service, Repository, PersistedEntity, ExternalClient]"

fun analyze_as :: "kind \<Rightarrow> string \<Rightarrow> string \<Rightarrow> string \<Rightarrow> analyzer \<Rightarrow> analyzer" where
  "analyze_as Controller = analyze_controller"
| "analyze_as Service = analyze_service"
| "analyze_as Repository = analyze_repository"
| "analyze_as PersistedEntity = analyze_entity"
| "analyze_as ExternalClient = analyze_external_client"

text \<open>
  The flow kind in the words of the specification, as a function of the two kinds.
\<close>

definition flow_kind :: "string \<Rightarrow> string \<Rightarrow> string" where
  "flow_kind source destination =
     (if source = ''controller'' \<and> destination = ''service'' then ''request''
      else if source = ''service'' \<and> destination = ''repository'' then ''query''
      else ''request'')"

section \<open>analyze_publishers.py: the publish calls\<close>

record publisher_info =
  pub_event_name :: string
  pub_class_name :: string
  pub_method_name :: string
  pub_file_path :: string
  pub_line_number :: nat
  pub_code_snippet :: string
  pub_package :: string

definition event_type :: regex where
  \<comment> \<open>\<^verbatim>\<open>\w+Event\<close>\<close>
  "event_type = Seq (plus word) (lit ''Event'')"

definition publish_patterns :: "regex list" where
  \<comment> \<open>\<^verbatim>\<open>\.publishEvent\s*\(\s*new\s+(\w+Event)\<close>,
      \<^verbatim>\<open>\.publish\s*\(\s*new\s+(\w+Event)\<close>,
      \<^verbatim>\<open>publishEvent\s*\(\s*new\s+(\w+Event)\<close>\<close>
  "publish_patterns =
     [seqs [lit ''.publishEvent'', Star space, lit ''('', Star space, lit ''new'', plus space,
        Grp 1 event_type],
      seqs [lit ''.publish'', Star space, lit ''('', Star space, lit ''new'', plus space,
        Grp 1 event_type],
      seqs [lit ''publishEvent'', Star space, lit ''('', Star space, lit ''new'', plus space,
        Grp 1 event_type]]"

definition publisher_class_re :: regex where
  \<comment> \<open>\<^verbatim>\<open>(?:public\s+)?(?:class|interface|record)\s+(\w+)\<close>\<close>
  "publisher_class_re = seqs [opt (Seq (lit ''public'') (plus space)),
     alts [lit ''class'', lit ''interface'', lit ''record''], plus space, Grp 1 (plus word)]"

definition publisher_class_name :: "string \<Rightarrow> string" where
  \<comment> \<open>\<^verbatim>\<open>PublisherAnalyzer._extract_class_name\<close>\<close>
  "publisher_class_name content =
     (case re_search publisher_class_re content of Some m \<Rightarrow> group m 1 | None \<Rightarrow> ''Unknown'')"

definition method_name_re :: regex where
  \<comment> \<open>\<^verbatim>\<open>(?:public|private|protected)?\s*(?:static\s+)?(?:\w+\s+)*(\w+)\s*\(\<close>\<close>
  "method_name_re = seqs [opt (alts [lit ''public'', lit ''private'', lit ''protected'']),
     Star space, opt (Seq (lit ''static'') (plus space)),
     Star (Seq (plus word) (plus space)), Grp 1 (plus word), Star space, lit ''('']"

fun find_method_name :: "string list \<Rightarrow> nat \<Rightarrow> string" where
  \<comment> \<open>the loop \<^verbatim>\<open>for i in range(target_line - 1, -1, -1)\<close>: with
      \<open>target_line = Suc i\<close> the line read first has index \<open>i\<close>. The caller passes a line
      number between 1 and the number of lines, so every index read is in range.\<close>
  "find_method_name lines 0 = ''unknown''"
| "find_method_name lines (Suc i) =
     (case re_search method_name_re (strip (lines ! i)) of
        Some m \<Rightarrow> group m 1
      | None \<Rightarrow> find_method_name lines i)"

definition get_code_snippet :: "string list \<Rightarrow> nat \<Rightarrow> string" where
  \<comment> \<open>with the default \<^verbatim>\<open>context = 2\<close>; the subtraction for \<open>start\<close> is cut
      off at zero as \<^verbatim>\<open>max(0, ...)\<close> does; line numbers begin at 1\<close>
  "get_code_snippet lines line_num =
     (let start = line_num - 2 - 1;
          stop = min (length lines) (line_num + 2)
      in join [newline]
           (map (\<lambda>i. (if i = line_num - 1 then ''>>> '' else ''    '') @ lines ! i) [start..<stop]))"

definition publish_calls_on_line ::
  "string list \<Rightarrow> string \<Rightarrow> string \<Rightarrow> string \<Rightarrow> nat \<times> string \<Rightarrow> publisher_info list" where
  \<comment> \<open>the inner loop: every pattern is tried on the line, and each one that matches
      appends a finding\<close>
  "publish_calls_on_line lines file_path package class_name numbered =
     (let line_num = fst numbered; line = snd numbered
      in concat (map (\<lambda>pattern.
           (case re_search pattern line of
              None \<Rightarrow> []
            | Some m \<Rightarrow>
                [\<lparr>pub_event_name = group m 1, pub_class_name = class_name,
                  pub_method_name = find_method_name lines line_num,
                  pub_file_path = file_path, pub_line_number = line_num,
                  pub_code_snippet = get_code_snippet lines line_num,
                  pub_package = package\<rparr>])) publish_patterns))"

definition find_publish_calls :: "string \<Rightarrow> string \<Rightarrow> string \<Rightarrow> string \<Rightarrow> publisher_info list" where
  \<comment> \<open>the findings one file appends to \<^verbatim>\<open>self.publishers\<close>, in order\<close>
  "find_publish_calls content file_path package class_name =
     (let lines = split_on newline content
      in concat (map (publish_calls_on_line lines file_path package class_name)
           (List.enumerate 1 lines)))"

definition publisher_analyze_file :: "java_file \<Rightarrow> publisher_info list" where
  \<comment> \<open>\<^verbatim>\<open>PublisherAnalyzer._analyze_file\<close>\<close>
  "publisher_analyze_file f =
     (case text_of f of
        None \<Rightarrow> []
      | Some content \<Rightarrow>
          find_publish_calls content (rel_path f) (extract_package content)
            (publisher_class_name content))"

section \<open>analyze_listeners.py: the event listeners\<close>

record listener_info =
  l_event_name :: string
  l_class_name :: string
  l_method_name :: string
  l_file_path :: string
  l_line_number :: nat
  l_package :: string
  l_is_async :: bool
  l_is_transactional :: bool
  l_transaction_phase :: "string option"
  l_condition :: "string option"
  l_javadoc :: "string option"

datatype py_error = IndexError

definition phase_re :: regex where
  \<comment> \<open>\<^verbatim>\<open>phase\s*=\s*TransactionPhase\.(\w+)\<close>\<close>
  "phase_re = seqs [lit ''phase'', Star space, lit ''='', Star space, lit ''TransactionPhase.'',
     Grp 1 (plus word)]"

definition condition_re :: regex where
  \<comment> \<open>\<^verbatim>\<open>condition\s*=\s*"([^"]+)"\<close>\<close>
  "condition_re = seqs [lit ''condition'', Star space, lit ''='', Star space, lit [CHR 0x22],
     Grp 1 (plus (Sym (\<lambda>ch. ch \<noteq> CHR 0x22))), lit [CHR 0x22]]"

definition method_decl_re :: regex where
  \<comment> \<open>\<^verbatim>\<open>(public|private|protected)\s+\w+\s+(\w+)\s*\(\<close>; the search for the method
      line uses the same pattern without the second group\<close>
  "method_decl_re = seqs [Grp 1 (alts [lit ''public'', lit ''private'', lit ''protected'']),
     plus space, plus word, plus space, Grp 2 (plus word), Star space, lit ''('']"

definition parameters_re :: regex where
  \<comment> \<open>\<^verbatim>\<open>\(([^)]+)\)\<close>\<close>
  "parameters_re = seqs [lit ''('', Grp 1 (plus (Sym (\<lambda>ch. ch \<noteq> CHR '')''))), lit '')'']"

definition event_parameter_re :: regex where
  \<comment> \<open>\<^verbatim>\<open>(\w+Event)\s+\w+\<close>\<close>
  "event_parameter_re = seqs [Grp 1 event_type, plus space, plus word]"

definition classes_re :: regex where
  \<comment> \<open>\<^verbatim>\<open>classes\s*=\s*\{?\s*(\w+Event)\.class\<close>\<close>
  "classes_re = seqs [lit ''classes'', Star space, lit ''='', Star space, opt (lit ''{''),
     Star space, Grp 1 event_type, lit ''.class'']"

definition listener_class_re :: regex where
  \<comment> \<open>\<^verbatim>\<open>@\w+EventListener\s*\(\s*(\w+Event)\.class\<close>\<close>
  "listener_class_re = seqs [lit ''@'', plus word, lit ''EventListener'', Star space, lit ''('',
     Star space, Grp 1 event_type, lit ''.class'']"

definition extract_event_from_parameter :: "string \<Rightarrow> string option" where
  "extract_event_from_parameter method_line =
     (case re_search parameters_re method_line of
        None \<Rightarrow> None
      | Some param_match \<Rightarrow>
          (case re_search event_parameter_re (group param_match 1) of
             Some event_match \<Rightarrow> Some (group event_match 1)
           | None \<Rightarrow> None))"

fun javadoc_scan :: "string list \<Rightarrow> bool \<Rightarrow> string list \<Rightarrow> string list" where
  \<comment> \<open>the loop of \<^verbatim>\<open>_extract_javadoc\<close> over the lines above the marker, nearest
      first; the flag is \<^verbatim>\<open>in_javadoc\<close>, the list \<^verbatim>\<open>javadoc_lines\<close>\<close>
  "javadoc_scan [] in_javadoc javadoc_lines = javadoc_lines"
| "javadoc_scan (l # ls) in_javadoc javadoc_lines =
     (let line = strip l
      in if line = ''*/'' then javadoc_scan ls True javadoc_lines
         else if startswith line ''/**'' then javadoc_lines
         else if in_javadoc then
           (let line' = (if startswith line ''*'' then strip (drop 1 line) else line)
            in if line' \<noteq> [] \<and> \<not> startswith line' ''@''
               then javadoc_scan ls in_javadoc (line' # javadoc_lines)
               else javadoc_scan ls in_javadoc javadoc_lines)
         else javadoc_scan ls in_javadoc javadoc_lines)"

definition extract_javadoc :: "string list \<Rightarrow> nat \<Rightarrow> string option" where
  \<comment> \<open>\<^verbatim>\<open>range(line_num - 1, max(0, line_num - 20), -1)\<close> is the reversed interval
      from \<open>Suc (line_num - 20)\<close> to \<open>line_num\<close>\<close>
  "extract_javadoc lines line_num =
     (let javadoc_lines =
            javadoc_scan (map (\<lambda>i. lines ! i) (rev [Suc (line_num - 20)..<line_num])) False []
      in if javadoc_lines \<noteq> [] then Some (strip (join '' '' javadoc_lines)) else None)"

fun async_before_method :: "string list \<Rightarrow> bool \<Rightarrow> bool" where
  \<comment> \<open>the \<^verbatim>\<open>while\<close> loop over the lines after the marker, up to the first line
      that begins with \<^verbatim>\<open>public\<close>\<close>
  "async_before_method [] is_async = is_async"
| "async_before_method (l # ls) is_async =
     (if startswith (strip l) ''public'' then is_async
      else async_before_method ls (is_async \<or> contains ''@Async'' l))"

definition find_method_line :: "string list \<Rightarrow> nat \<Rightarrow> nat option" where
  \<comment> \<open>\<^verbatim>\<open>for j in range(start_line + 1, min(start_line + 10, len(lines)))\<close>\<close>
  "find_method_line lines start_line =
     find (\<lambda>j. re_matches method_decl_re (lines ! j))
       [Suc start_line..<min (start_line + 10) (length lines)]"

definition parse_listener ::
  "string list \<Rightarrow> nat \<Rightarrow> string \<Rightarrow> string \<Rightarrow> string \<Rightarrow> bool \<Rightarrow> py_error + listener_info option" where
  \<comment> \<open>\<open>Inr None\<close> is \<^verbatim>\<open>return None\<close>. The test \<^verbatim>\<open>if not method_line\<close> only
      sees \<^verbatim>\<open>None\<close>: a line index found by the loop is at least 1.\<close>
  "parse_listener lines start_line file_path package class_name has_class_async =
     (if start_line \<ge> length lines then Inl IndexError
      else
        (let annotation_line = lines ! start_line;
             is_transactional = contains ''@TransactionalEventListener'' annotation_line;
             transaction_phase =
               (if is_transactional then
                  (case re_search phase_re annotation_line of
                     Some phase_match \<Rightarrow> Some (group phase_match 1)
                   | None \<Rightarrow> None)
                else None);
             condition =
               (case re_search condition_re annotation_line of
                  Some condition_match \<Rightarrow> Some (group condition_match 1)
                | None \<Rightarrow> None);
             is_async = async_before_method (drop (Suc start_line) lines) has_class_async
         in case find_method_line lines start_line of
              None \<Rightarrow> Inr None
            | Some method_line \<Rightarrow>
                (case re_search method_decl_re (lines ! method_line) of
                   None \<Rightarrow> Inr None
                 | Some method_match \<Rightarrow>
                     (let method_name = group method_match 2;
                          event_name =
                            (case extract_event_from_parameter (lines ! method_line) of
                               Some e \<Rightarrow> Some e
                             | None \<Rightarrow>
                                 (case re_search classes_re annotation_line of
                                    Some classes_match \<Rightarrow> Some (group classes_match 1)
                                  | None \<Rightarrow>
                                      (case re_search listener_class_re annotation_line of
                                         Some class_match \<Rightarrow> Some (group class_match 1)
                                       | None \<Rightarrow> None)))
                      in case event_name of
                           None \<Rightarrow> Inr None
                         | Some event \<Rightarrow>
                             Inr (Some \<lparr>l_event_name = event, l_class_name = class_name,
                               l_method_name = method_name, l_file_path = file_path,
                               l_line_number = start_line + 1, l_package = package,
                               l_is_async = is_async, l_is_transactional = is_transactional,
                               l_transaction_phase = transaction_phase,
                               l_condition = condition,
                               l_javadoc = extract_javadoc lines start_line\<rparr>)))))"

fun find_listeners_from ::
  "string list \<Rightarrow> nat list \<Rightarrow> string \<Rightarrow> string \<Rightarrow> string \<Rightarrow> bool \<Rightarrow> listener_info list" where
  \<comment> \<open>the \<^verbatim>\<open>while i < len(lines)\<close> loop over the remaining indices; an exception
      ends the loop and leaves the listeners appended so far\<close>
  "find_listeners_from lines [] file_path package class_name has_class_async = []"
| "find_listeners_from lines (i # is) file_path package class_name has_class_async =
     (if contains ''@EventListener'' (lines ! i) \<or> contains ''@TransactionalEventListener'' (lines ! i)
      then
        (case parse_listener lines i file_path package class_name has_class_async of
           Inl e \<Rightarrow> []
         | Inr None \<Rightarrow> find_listeners_from lines is file_path package class_name has_class_async
         | Inr (Some listener_info) \<Rightarrow>
             listener_info #
             find_listeners_from lines is file_path package class_name has_class_async)
      else find_listeners_from lines is file_path package class_name has_class_async)"

definition find_listeners :: "string \<Rightarrow> string \<Rightarrow> string \<Rightarrow> string \<Rightarrow> bool \<Rightarrow> listener_info list" where
  "find_listeners content file_path package class_name has_class_async =
     (let lines = split_on newline content
      in find_listeners_from lines [0..<length lines] file_path package class_name has_class_async)"

definition listener_class_name_re :: regex where
  \<comment> \<open>\<^verbatim>\<open>(?:public\s+)?(?:class|interface)\s+(\w+)\<close>\<close>
  "listener_class_name_re = seqs [opt (Seq (lit ''public'') (plus space)),
     Alt (lit ''class'') (lit ''interface''), plus space, Grp 1 (plus word)]"

definition listener_class_name :: "string \<Rightarrow> string" where
  \<comment> \<open>\<^verbatim>\<open>ListenerAnalyzer._extract_class_name\<close>\<close>
  "listener_class_name content =
     (case re_search listener_class_name_re content of
        Some m \<Rightarrow> group m 1
      | None \<Rightarrow> ''Unknown'')"

definition listener_analyze_file :: "java_file \<Rightarrow> listener_info list" where
  \<comment> \<open>\<^verbatim>\<open>ListenerAnalyzer._analyze_file\<close>\<close>
  "listener_analyze_file f =
     (case text_of f of
        None \<Rightarrow> []
      | Some content \<Rightarrow>
          find_listeners content (rel_path f) (extract_package content)
            (listener_class_name content) (contains ''@Async'' content))"

section \<open>Sample inputs\<close>

definition order_controller_file :: java_file where
  "order_controller_file =
     \<lparr>path = ''/app/src/com/shop/order/OrderController.java'',
      rel_path = ''com/shop/order/OrderController.java'',
      text_of = Some (join [newline]
        [''package com.shop.order;'',
         ''@RestController'',
         ''public class OrderController {'',
         ''    @Autowired'',
         ''    private OrderService orderService;'',
         ''    @PostMapping'',
         ''    public String place(String id) {'',
         ''    }'',
         ''}''])\<rparr>"

definition order_service_file :: java_file where
  "order_service_file =
     \<lparr>path = ''/app/src/com/shop/order/OrderService.java'',
      rel_path = ''com/shop/order/OrderService.java'',
      text_of = Some (join [newline]
        [''package com.shop.order;'',
         ''@Service'',
         ''public class OrderService {'',
         ''    @Autowired'',
         ''    private OrderRepository orderRepository;'',
         ''    public void placeOrder(String id) {'',
         ''    }'',
         ''}''])\<rparr>"

definition order_repository_file :: java_file where
  "order_repository_file =
     \<lparr>path = ''/app/src/com/shop/order/OrderRepository.java'',
      rel_path = ''com/shop/order/OrderRepository.java'',
      text_of = Some (join [newline]
        [''package com.shop.order;'',
         ''@Repository'',
         ''public interface OrderRepository {'',
         ''    Order findById(String id);'',
         ''}''])\<rparr>"

definition shop_files :: "java_file list" where
  "shop_files = [order_controller_file, order_service_file, order_repository_file]"

definition request_flow :: data_flow where
  "request_flow = \<lparr>from_component = ''OrderController'', to_component = ''OrderService'',
     data_type = ''business_data'', flow_type = ''request''\<rparr>"

definition query_flow :: data_flow where
  "query_flow = \<lparr>from_component = ''OrderService'', to_component = ''OrderRepository'',
     data_type = ''business_data'', flow_type = ''query''\<rparr>"

definition plain_text :: string where
  "plain_text = join [newline]
     [''package com.shop.util;'',
      ''public class Texts {'',
      ''}'']"

definition plain_file :: java_file where
  "plain_file =
     \<lparr>path = ''/app/src/com/shop/event/Texts.java'',
      rel_path = ''com/shop/event/Texts.java'',
      text_of = Some plain_text\<rparr>"

definition busy_service_text :: string where
  "busy_service_text = join [newline]
     [''@Service'',
      ''public class Busy {'',
      ''public void a() {}'',
      ''public void b() {}'',
      ''public void c() {}'',
      ''public void d() {}'',
      ''public void e() {}'',
      ''public void f() {}'',
      ''public void g() {}'',
      ''public void h() {}'',
      ''public void i() {}'',
      ''public void j() {}'',
      ''public void k() {}'',
      ''}'']"


definition order_event_file :: java_file where
  "order_event_file =
     \<lparr>path = ''/app/src/com/shop/order/event/OrderPlacedEvent.java'',
      rel_path = ''com/shop/order/event/OrderPlacedEvent.java'',
      text_of = Some (join [newline]
        [''package com.shop.order.event;'',
         ''public record OrderPlacedEvent(String orderId) {'',
         ''}''])\<rparr>"

definition user_event_file :: java_file where
  "user_event_file =
     \<lparr>path = ''/app/src/com/shop/user/event/UserCreatedEvent.java'',
      rel_path = ''com/shop/user/event/UserCreatedEvent.java'',
      text_of = Some (join [newline]
        [''package com.shop.user.event;'',
         ''public record UserCreatedEvent(String userId) {'',
         ''}''])\<rparr>"

definition order_placed_event :: event_info where
  "order_placed_event =
     \<lparr>e_name = ''OrderPlacedEvent'', e_package = ''com.shop.order.event'',
      e_file_path = ''com/shop/order/event/OrderPlacedEvent.java'', e_bounded_context = ''Order'',
      e_javadoc = None,
      e_fields = [\<lparr>f_name = ''orderId'', f_type = ''String'', f_javadoc = None, f_annotations = []\<rparr>],
      e_extends = None, e_annotations = [], e_is_record = True\<rparr>"

definition user_created_event :: event_info where
  "user_created_event =
     \<lparr>e_name = ''UserCreatedEvent'', e_package = ''com.shop.user.event'',
      e_file_path = ''com/shop/user/event/UserCreatedEvent.java'', e_bounded_context = ''User'',
      e_javadoc = None,
      e_fields = [\<lparr>f_name = ''userId'', f_type = ''String'', f_javadoc = None, f_annotations = []\<rparr>],
      e_extends = None, e_annotations = [], e_is_record = True\<rparr>"

definition order_service_text :: string where
  "order_service_text = join [newline]
     [''package com.shop.order;'',
      ''public class OrderService {'',
      ''    public void placeOrder(String id) {'',
      ''        eventPublisher.publishEvent(new OrderPlacedEvent(id));'',
      ''    }'',
      ''}'']"

definition publish_finding :: publisher_info where
  "publish_finding =
     \<lparr>pub_event_name = ''OrderPlacedEvent'', pub_class_name = ''OrderService'',
      pub_method_name = ''publishEvent'', pub_file_path = ''com/shop/order/OrderService.java'',
      pub_line_number = 4,
      pub_code_snippet = join [newline]
        [''    public class OrderService {'',
         ''        public void placeOrder(String id) {'',
         ''>>>         eventPublisher.publishEvent(new OrderPlacedEvent(id));'',
         ''        }'',
         ''    }''],
      pub_package = ''com.shop.order''\<rparr>"

definition tx_listener_lines :: "string list" where
  "tx_listener_lines =
     [''public class BillingListener {'',
      ''    @TransactionalEventListener'',
      ''    public void onOrderPlaced(OrderPlacedEvent event) {'',
      ''    }'',
      ''}'']"

definition billing_listener :: listener_info where
  "billing_listener =
     \<lparr>l_event_name = ''OrderPlacedEvent'', l_class_name = ''BillingListener'',
      l_method_name = ''onOrderPlaced'', l_file_path = ''BillingListener.java'',
      l_line_number = 2, l_package = [], l_is_async = False, l_is_transactional = True,
      l_transaction_phase = None, l_condition = None, l_javadoc = None\<rparr>"

definition untyped_listener_lines :: "string list" where
  "untyped_listener_lines =
     [''public class AuditListener {'',
      ''    @EventListener'',
      ''    public void onAnything(Object payload) {'',
      ''    }'',
      ''}'']"

definition clock_user :: process where
  "clock_user = \<lparr>p_name = ''Timer'', p_class_name = ''Timer'', p_file_path = ''Timer.java'',
     p_type = ''service'', p_methods = [], p_dependencies = [''Clock'']\<rparr>"




section \<open>Properties of the matcher\<close>















section \<open>Properties of the event scanner\<close>

lemma context_before_marker_find:
  "context_before_marker parts i =
     map_option (\<lambda>j. capitalize (parts ! (j - 1)))
       (find (\<lambda>j. parts ! j \<in> set context_markers \<and> j > 0) [i..<length parts])"
proof (induction parts i rule: context_before_marker.induct)
  case (1 parts i)
  show ?case
  proof (cases "i < length parts")
    case True
    then have upt: "[i..<length parts] = i # [Suc i..<length parts]"
      by (simp add: upt_conv_Cons)
    show ?thesis
      using True 1 by (subst context_before_marker.simps) (auto simp: upt)
  next
    case False
    then show ?thesis
      by (subst context_before_marker.simps) simp
  qed
qed

lemma find_from_one:
  "find (\<lambda>j. P j \<and> j > 0) [0..<n] = find P [1..<n]"
proof (cases n)
  case 0
  then show ?thesis by simp
next
  case (Suc m)
  have "find (\<lambda>j. P j \<and> j > 0) [Suc 0..<Suc m] = find P [Suc 0..<Suc m]"
    by (rule find_cong) auto
  then show ?thesis
    using Suc by (simp add: upt_conv_Cons del: upt_Suc)
qed

text \<open>
  C8. For every namespace string the grouping function of the scanner returns what the
  rule of the specification returns: the capitalized segment before the first marker
  segment (domain, event, events) found at a position greater than zero, otherwise the
  capitalized last segment outside com, org, net, domain, event, events, otherwise
  the sentinel Unknown.
\<close>

theorem infer_bounded_context_spec:
  "infer_bounded_context package = bounded_context_spec package"
  unfolding infer_bounded_context_def bounded_context_spec_def Let_def
    context_before_marker_find find_from_one
  by (auto simp: context_markers_def split: option.splits list.splits)




















lemma scan_map_filter:
  "scan java_files =
     List.map_filter (\<lambda>f. if is_event_package (path f) then parse_event_file f else None) java_files"
  by (induction java_files) (simp_all split: option.splits)

lemma mset_map_filter:
  "mset (List.map_filter g xs) = image_mset (the \<circ> g) (filter_mset (\<lambda>x. g x \<noteq> None) (mset xs))"
  by (simp add: List.map_filter_def)

lemma scan_order_files: "scan [order_event_file, user_event_file] = [order_placed_event, user_created_event]"
  by code_simp

lemma scan_user_files: "scan [user_event_file, order_event_file] = [user_created_event, order_placed_event]"
  by code_simp

lemma order_user_events_differ: "order_placed_event \<noteq> user_created_event"
  by (simp add: order_placed_event_def user_created_event_def)

text \<open>
  C7, as stated, fails: the same two files enumerated in the two possible orders give two
  different entity lists, and for one entity list the summary admits the distinct grouping
  labels in either order.
\<close>

theorem scan_order_dependent:
  "set [order_event_file, user_event_file] = set [user_event_file, order_event_file]
   \<and> scan [order_event_file, user_event_file] \<noteq> scan [user_event_file, order_event_file]
   \<and> json_summary_ok (scan [order_event_file, user_event_file]) (2, [''Order'', ''User''])
   \<and> json_summary_ok (scan [order_event_file, user_event_file]) (2, [''User'', ''Order''])"
proof (intro conjI)
  show "set [order_event_file, user_event_file] = set [user_event_file, order_event_file]"
    by auto
  show "scan [order_event_file, user_event_file] \<noteq> scan [user_event_file, order_event_file]"
    unfolding scan_order_files scan_user_files
    by (simp add: order_user_events_differ)
  show "json_summary_ok (scan [order_event_file, user_event_file]) (2, [''Order'', ''User''])"
    unfolding scan_order_files
    by (simp add: json_summary_ok_def order_placed_event_def user_created_event_def)
  show "json_summary_ok (scan [order_event_file, user_event_file]) (2, [''User'', ''Order''])"
    unfolding scan_order_files
    by (auto simp add: json_summary_ok_def order_placed_event_def user_created_event_def)
qed

lemma scan_append: "scan (xs @ ys) = scan xs @ scan ys"
  by (induction xs) (simp_all split: option.splits)

lemma scan_order_file: "scan [order_event_file] = [order_placed_event]"
  by code_simp

lemma scan_user_file: "scan [user_event_file] = [user_created_event]"
  by code_simp

text \<open>
  C7, amended. The entity list is a function of the sequence of files in the order of
  enumeration and lists the entities in that order, without sorting: it is the files,
  in order, each replaced by its event or left out, and the scan of a sequence followed by
  another is the scan of the first followed by the scan of the second. Two enumerations of
  the same files yield the same entities with the same multiplicities and the same count,
  and admit the same summaries: the same count and the same set of distinct grouping
  labels, in an order that the scan does not fix.
\<close>

theorem scan_permutation:
  "scan java_files =
     List.map_filter (\<lambda>f. if is_event_package (path f) then parse_event_file f else None)
       java_files
   \<and> scan (java_files @ more_files) = scan java_files @ scan more_files
   \<and> (mset java_files = mset java_files' \<longrightarrow>
        mset (scan java_files) = mset (scan java_files')
        \<and> length (scan java_files) = length (scan java_files')
        \<and> (json_summary_ok (scan java_files) summary
             \<longleftrightarrow> json_summary_ok (scan java_files') summary))"
proof (intro conjI impI)
  show "scan java_files =
     List.map_filter (\<lambda>f. if is_event_package (path f) then parse_event_file f else None)
       java_files"
    by (rule scan_map_filter)
  show "scan (java_files @ more_files) = scan java_files @ scan more_files"
    by (rule scan_append)
next
  assume p: "mset java_files = mset java_files'"
  show m: "mset (scan java_files) = mset (scan java_files')"
    by (simp add: scan_map_filter mset_map_filter p)
  then show l: "length (scan java_files) = length (scan java_files')"
    by (metis size_mset)
  from m have "set (scan java_files) = set (scan java_files')"
    by (metis set_mset_mset)
  then have "set (map e_bounded_context (scan java_files))
      = set (map e_bounded_context (scan java_files'))"
    by simp
  with l show "json_summary_ok (scan java_files) summary
      \<longleftrightarrow> json_summary_ok (scan java_files') summary"
    by (simp add: json_summary_ok_def)
qed

theorem scan_permutation_witness:
  "mset [order_event_file, user_event_file] = mset [user_event_file, order_event_file]
   \<and> mset (scan [order_event_file, user_event_file]) = mset (scan [user_event_file, order_event_file])
   \<and> length (scan [order_event_file, user_event_file]) = 2
   \<and> scan ([order_event_file] @ [user_event_file]) = [order_placed_event, user_created_event]
   \<and> scan ([user_event_file] @ [order_event_file]) = [user_created_event, order_placed_event]"
proof -
  have h: "mset [order_event_file, user_event_file] = mset [user_event_file, order_event_file]"
    by (simp add: add.commute)
  note t = scan_permutation [of "[order_event_file, user_event_file]" _
      "[user_event_file, order_event_file]" "(2, [''Order'', ''User''])"]
  from t h have "mset (scan [order_event_file, user_event_file])
      = mset (scan [user_event_file, order_event_file])"
    by blast
  moreover have "length (scan [order_event_file, user_event_file]) = 2"
    unfolding scan_order_files by simp
  moreover from scan_permutation [of "[order_event_file]" "[user_event_file]"]
  have "scan ([order_event_file] @ [user_event_file]) = [order_placed_event, user_created_event]"
    unfolding scan_order_file scan_user_file by simp
  moreover from scan_permutation [of "[user_event_file]" "[order_event_file]"]
  have "scan ([user_event_file] @ [order_event_file]) = [user_created_event, order_placed_event]"
    unfolding scan_order_file scan_user_file by simp
  ultimately show ?thesis
    using h by blast
qed

section \<open>Properties of the component analyzer\<close>

lemma process_map_snoc:
  "process_map (ps @ [p]) = (process_map ps)(p_class_name p \<mapsto> p)"
  by (simp add: process_map_def)

lemma process_map_Some:
  "process_map ps n = Some t \<Longrightarrow> t \<in> set ps \<and> p_class_name t = n"
proof (induction ps arbitrary: t rule: rev_induct)
  case Nil
  then show ?case by (simp add: process_map_def)
next
  case (snoc p ps)
  show ?case
  proof (cases "p_class_name p = n")
    case True
    with snoc.prems show ?thesis by (simp add: process_map_snoc)
  next
    case False
    with snoc.prems have "process_map ps n = Some t" by (simp add: process_map_snoc)
    with snoc.IH show ?thesis by simp
  qed
qed



lemma dependency_flows_elem:
  "f \<in> set (dependency_flows pm p deps) \<Longrightarrow>
     \<exists>dep t. dep \<in> set deps \<and> pm dep = Some t \<and> from_component f = p_class_name p
       \<and> to_component f = p_class_name t \<and> flow_type f = flow_type_of p t"
proof (induction deps)
  case Nil
  then show ?case by simp
next
  case (Cons d deps)
  show ?case
  proof (cases "pm d")
    case None
    with Cons.prems have "f \<in> set (dependency_flows pm p deps)" by simp
    from Cons.IH [OF this] show ?thesis by auto
  next
    case (Some t)
    with Cons.prems consider
      "f = \<lparr>from_component = p_class_name p, to_component = p_class_name t,
            data_type = ''business_data'', flow_type = flow_type_of p t\<rparr>"
      | "f \<in> set (dependency_flows pm p deps)"
      by auto
    then show ?thesis
    proof cases
      case 1
      with Some show ?thesis by (intro exI [of _ d] exI [of _ t]) simp
    next
      case 2
      from Cons.IH [OF this] show ?thesis by auto
    qed
  qed
qed


lemma process_flows_elem:
  "f \<in> set (process_flows pm ps) \<Longrightarrow>
     \<exists>p dep t. p \<in> set ps \<and> dep \<in> set (p_dependencies p) \<and> pm dep = Some t
       \<and> from_component f = p_class_name p \<and> to_component f = p_class_name t
       \<and> flow_type f = flow_type_of p t"
proof (induction ps)
  case Nil
  then show ?case by simp
next
  case (Cons q ps)
  from Cons.prems consider "f \<in> set (dependency_flows pm q (p_dependencies q))"
    | "f \<in> set (process_flows pm ps)"
    by auto
  then show ?case
  proof cases
    case 1
    from dependency_flows_elem [OF this] obtain dep t where
      "dep \<in> set (p_dependencies q)" "pm dep = Some t" "from_component f = p_class_name q"
      "to_component f = p_class_name t" "flow_type f = flow_type_of q t"
      by blast
    then show ?thesis
      by (intro exI [of _ q] exI [of _ dep] exI [of _ t]) simp
  next
    case 2
    from Cons.IH [OF this] obtain p dep t where
      "p \<in> set ps" "dep \<in> set (p_dependencies p)" "pm dep = Some t"
      "from_component f = p_class_name p" "to_component f = p_class_name t"
      "flow_type f = flow_type_of p t"
      by blast
    then show ?thesis
      by (intro exI [of _ p] exI [of _ dep] exI [of _ t]) simp
  qed
qed

lemma flow_type_of_kind: "flow_type_of p t = flow_kind (p_type p) (p_type t)"
  by (simp add: flow_type_of_def flow_kind_def)

lemma analyze_file_data_flows: "data_flows (analyze_file a f) = data_flows a"
  by (simp add: analyze_file_def analyze_controller_def analyze_service_def
      analyze_repository_def analyze_entity_def analyze_external_client_def Let_def
      split: option.splits)

lemma foldl_analyze_file_data_flows:
  "data_flows (foldl analyze_file a fs) = data_flows a"
  by (induction fs arbitrary: a) (simp_all add: analyze_file_data_flows)

lemma analyze_data_flows:
  "data_flows (analyze fs) =
     process_flows (process_map (processes (analyze fs))) (processes (analyze fs))"
  by (simp add: analyze_def infer_data_flows_def foldl_analyze_file_data_flows new_analyzer_def)

lemma analyze_shop_files: "data_flows (analyze shop_files) = [request_flow, query_flow]"
  by code_simp

lemma plain_first_kind: "first_kind plain_text = None"
  by code_simp

lemma plain_not_event: "\<not> is_event_class plain_text"
  by code_simp

lemma busy_service_methods:
  "re_findall public_method_re busy_service_text =
     [''a'', ''b'', ''c'', ''d'', ''e'', ''f'', ''g'', ''h'', ''i'', ''j'', ''k'']"
  by code_simp

text \<open>
  C1. The classifier of the component analyzer applies to a file the analysis of exactly
  one kind, the first kind of the list controller, service, repository, persisted entity,
  external client whose marker the text matches, and leaves the analyzer unchanged when the
  file cannot be read, declares no public class or interface, or matches no marker. In the
  event scanner a text that has none of the event-declaration shapes yields no event. Both
  functions return a value on every input.
\<close>

theorem classifier_first_match:
  "analyze_file a f =
     (case text_of f of
        None \<Rightarrow> a
      | Some content \<Rightarrow>
          (case re_search public_class_re content of
             None \<Rightarrow> a
           | Some class_match \<Rightarrow>
               (case first_kind content of
                  None \<Rightarrow> a
                | Some k \<Rightarrow> analyze_as k (group class_match 1) content (rel_path f) a)))
   \<and> (text_of f = Some body \<longrightarrow> first_kind body = None \<longrightarrow> analyze_file a f = a)
   \<and> (text_of f = Some body \<longrightarrow> \<not> is_event_class body \<longrightarrow> parse_event_file f = None)"
proof (intro conjI impI)
  show eq: "analyze_file a f =
     (case text_of f of
        None \<Rightarrow> a
      | Some content \<Rightarrow>
          (case re_search public_class_re content of
             None \<Rightarrow> a
           | Some class_match \<Rightarrow>
               (case first_kind content of
                  None \<Rightarrow> a
                | Some k \<Rightarrow> analyze_as k (group class_match 1) content (rel_path f) a)))"
    by (simp add: analyze_file_def first_kind_def Let_def split: option.splits)
  show "analyze_file a f = a" if "text_of f = Some body" "first_kind body = None"
    using that by (simp add: eq split: option.splits)
  show "parse_event_file f = None" if "text_of f = Some body" "\<not> is_event_class body"
    using that by (simp add: parse_event_file_def)
qed

theorem classifier_first_match_witness:
  "text_of plain_file = Some plain_text \<and> first_kind plain_text = None
   \<and> \<not> is_event_class plain_text
   \<and> analyze_file new_analyzer plain_file = new_analyzer
   \<and> parse_event_file plain_file = None"
proof -
  have h: "text_of plain_file = Some plain_text"
    by (simp add: plain_file_def)
  note c = classifier_first_match [of new_analyzer plain_file plain_text]
  from c h plain_first_kind have "analyze_file new_analyzer plain_file = new_analyzer"
    by blast
  moreover from c h plain_not_event have "parse_event_file plain_file = None"
    by blast
  ultimately show ?thesis
    using h plain_first_kind plain_not_event by blast
qed

text \<open>
  C2. Every dependency flow of a finished run goes from a process of the run to the
  process that the map of the run holds under the destination name, and its flow kind is
  the function of the two kinds that the specification gives: request from a controller to
  a service, query from a service to a repository, request for every other pair.
\<close>

theorem dependency_flow_kind:
  assumes "f \<in> set (data_flows (analyze java_files))"
  shows "\<exists>p t. p \<in> set (processes (analyze java_files))
           \<and> process_map (processes (analyze java_files)) (to_component f) = Some t
           \<and> from_component f = p_class_name p
           \<and> flow_type f = flow_kind (p_type p) (p_type t)"
proof -
  let ?ps = "processes (analyze java_files)"
  from assms have "f \<in> set (process_flows (process_map ?ps) ?ps)"
    by (simp add: analyze_data_flows)
  from process_flows_elem [OF this] obtain p dep t where *: "p \<in> set ?ps"
      "process_map ?ps dep = Some t"
      "from_component f = p_class_name p" "to_component f = p_class_name t"
      "flow_type f = flow_type_of p t"
    by blast
  from process_map_Some [OF *(2)] have "p_class_name t = dep"
    by simp
  with * show ?thesis
    by (intro exI [of _ p] exI [of _ t]) (simp add: flow_type_of_kind)
qed

theorem dependency_flow_kind_witness:
  "query_flow \<in> set (data_flows (analyze shop_files))
   \<and> (\<exists>p t. p \<in> set (processes (analyze shop_files))
           \<and> process_map (processes (analyze shop_files)) (to_component query_flow) = Some t
           \<and> from_component query_flow = p_class_name p
           \<and> flow_type query_flow = flow_kind (p_type p) (p_type t))"
proof -
  have h: "query_flow \<in> set (data_flows (analyze shop_files))"
    by (simp add: analyze_shop_files)
  from dependency_flow_kind [OF h] h show ?thesis
    by blast
qed

text \<open>
  C9. Both endpoints of every dependency flow of a finished run are names of processes
  extracted in that run; a dependency that names no known process adds no flow.
\<close>

theorem dependency_flow_endpoints:
  "(f \<in> set (data_flows (analyze java_files)) \<longrightarrow>
      from_component f \<in> p_class_name ` set (processes (analyze java_files))
      \<and> to_component f \<in> p_class_name ` set (processes (analyze java_files)))
   \<and> (pm dep = None \<longrightarrow> dependency_flows pm p (dep # deps) = dependency_flows pm p deps)"
proof (intro conjI impI)
  let ?ps = "processes (analyze java_files)"
  assume "f \<in> set (data_flows (analyze java_files))"
  then have "f \<in> set (process_flows (process_map ?ps) ?ps)"
    by (simp add: analyze_data_flows)
  from process_flows_elem [OF this] obtain q d t where *: "q \<in> set ?ps"
      "process_map ?ps d = Some t"
      "from_component f = p_class_name q" "to_component f = p_class_name t"
    by blast
  from process_map_Some [OF *(2)] have t: "t \<in> set ?ps"
    by simp
  from * show "from_component f \<in> p_class_name ` set ?ps"
    by simp
  from * t show "to_component f \<in> p_class_name ` set ?ps"
    by simp
next
  assume "pm dep = None"
  then show "dependency_flows pm p (dep # deps) = dependency_flows pm p deps"
    by simp
qed

theorem dependency_flow_endpoints_witness:
  "request_flow \<in> set (data_flows (analyze shop_files))
   \<and> from_component request_flow \<in> p_class_name ` set (processes (analyze shop_files))
   \<and> to_component request_flow \<in> p_class_name ` set (processes (analyze shop_files))
   \<and> Map.empty ''Clock'' = (None :: process option)
   \<and> dependency_flows Map.empty clock_user [''Clock''] = []"
proof -
  have h: "request_flow \<in> set (data_flows (analyze shop_files))"
    by (simp add: analyze_shop_files)
  have e: "Map.empty ''Clock'' = (None :: process option)"
    by simp
  note d = dependency_flow_endpoints [of request_flow shop_files Map.empty "''Clock''" clock_user "[]"]
  from d h have "from_component request_flow \<in> p_class_name ` set (processes (analyze shop_files))
     \<and> to_component request_flow \<in> p_class_name ` set (processes (analyze shop_files))"
    by blast
  moreover from d e have "dependency_flows Map.empty clock_user [''Clock''] = []"
    by simp
  ultimately show ?thesis
    using h e by blast
qed

text \<open>
  C10. The process of a service holds the first ten names, at most, that the pattern for
  public methods finds in the text, in the order of the text; the process of a controller
  holds every name that its pattern finds. A service text with eleven public methods keeps
  ten of them.
\<close>

theorem service_methods_limit:
  "p_methods (last (processes (analyze_service class_name content file_path a)))
     = take 10 (re_findall public_method_re content)
   \<and> length (p_methods (last (processes (analyze_service class_name content file_path a)))) \<le> 10
   \<and> p_methods (last (processes (analyze_controller class_name content file_path a)))
     = re_findall mapping_method_re content
   \<and> p_methods (last (processes (analyze_service ''Busy'' busy_service_text ''Busy.java'' a)))
     = [''a'', ''b'', ''c'', ''d'', ''e'', ''f'', ''g'', ''h'', ''i'', ''j'']"
  by (simp add: analyze_service_def analyze_controller_def Let_def busy_service_methods)

section \<open>Properties of the publisher analyzer\<close>

lemma order_service_publish_calls:
  "find_publish_calls order_service_text ''com/shop/order/OrderService.java''
     ''com.shop.order'' ''OrderService'' = [publish_finding, publish_finding]"
  by code_simp

text \<open>
  C4. On a file whose method placeOrder holds the one publish call
  \<^verbatim>\<open>eventPublisher.publishEvent(new OrderPlacedEvent(id))\<close> the extractor yields two
  findings for that call, both with the event name OrderPlacedEvent, a snippet that is
  not empty, and the method name publishEvent.
\<close>

theorem publish_call_findings:
  "find_publish_calls order_service_text ''com/shop/order/OrderService.java''
     ''com.shop.order'' ''OrderService'' = [publish_finding, publish_finding]
   \<and> pub_event_name publish_finding = ''OrderPlacedEvent''
   \<and> pub_method_name publish_finding = ''publishEvent''
   \<and> pub_method_name publish_finding \<noteq> ''placeOrder''
   \<and> pub_code_snippet publish_finding \<noteq> []"
  using order_service_publish_calls
  by (simp add: publish_finding_def)

section \<open>Properties of the listener analyzer\<close>

lemma parse_billing_listener:
  "parse_listener tx_listener_lines 1 ''BillingListener.java'' [] ''BillingListener'' False
     = Inr (Some billing_listener)"
  by code_simp

lemma tx_marker: "contains ''@TransactionalEventListener'' (tx_listener_lines ! 1)"
  by code_simp

lemma tx_no_phase: "re_search phase_re (tx_listener_lines ! 1) = None"
  by code_simp

text \<open>
  C5, as stated, fails: a listener whose transactional marker names no phase is emitted
  with an absent phase, not with AFTER_COMMIT.
\<close>

theorem transactional_phase_absent_example:
  "contains ''@TransactionalEventListener'' (tx_listener_lines ! 1)
   \<and> re_search phase_re (tx_listener_lines ! 1) = None
   \<and> parse_listener tx_listener_lines 1 ''BillingListener.java'' [] ''BillingListener'' False
       = Inr (Some billing_listener)
   \<and> l_is_transactional billing_listener
   \<and> l_transaction_phase billing_listener \<noteq> Some ''AFTER_COMMIT''"
  using tx_marker tx_no_phase parse_billing_listener
  by (simp add: billing_listener_def)

text \<open>
  C5, amended. A listener record emitted for a marker line that carries the transactional
  marker and names no phase is transactional and has an absent transaction phase.
\<close>

theorem transactional_phase_default:
  assumes "parse_listener lines start_line file_path package class_name has_class_async
             = Inr (Some l)"
    and "contains ''@TransactionalEventListener'' (lines ! start_line)"
    and "re_search phase_re (lines ! start_line) = None"
  shows "l_is_transactional l \<and> l_transaction_phase l = None"
  using assms
  by (auto simp: parse_listener_def Let_def split: if_splits option.splits)

theorem transactional_phase_default_witness:
  "parse_listener tx_listener_lines 1 ''BillingListener.java'' [] ''BillingListener'' False
     = Inr (Some billing_listener)
   \<and> contains ''@TransactionalEventListener'' (tx_listener_lines ! 1)
   \<and> re_search phase_re (tx_listener_lines ! 1) = None
   \<and> l_is_transactional billing_listener \<and> l_transaction_phase billing_listener = None"
  using transactional_phase_default [OF parse_billing_listener tx_marker tx_no_phase]
    parse_billing_listener tx_marker tx_no_phase
  by blast

lemma untyped_method_line: "find_method_line untyped_listener_lines 1 = Some 2"
  by code_simp

lemma untyped_no_parameter: "extract_event_from_parameter (untyped_listener_lines ! 2) = None"
  by code_simp

lemma untyped_no_classes: "re_search classes_re (untyped_listener_lines ! 1) = None"
  by code_simp

lemma untyped_no_class: "re_search listener_class_re (untyped_listener_lines ! 1) = None"
  by code_simp

lemma untyped_marker: "contains ''@EventListener'' (untyped_listener_lines ! 1)"
  by code_simp

lemma parse_untyped_listener:
  "parse_listener untyped_listener_lines 1 ''AuditListener.java'' [] ''AuditListener'' False = Inr None"
  by code_simp

lemma find_untyped_listeners:
  "find_listeners (join [newline] untyped_listener_lines) ''AuditListener.java'' []
     ''AuditListener'' False = []"
  by code_simp

text \<open>
  C6, as stated, fails: a method that carries the subscription marker and has no
  resolvable event type yields no record, and the output for its file is empty.
\<close>

theorem unresolved_listener_dropped_example:
  "contains ''@EventListener'' (untyped_listener_lines ! 1)
   \<and> find_method_line untyped_listener_lines 1 = Some 2
   \<and> extract_event_from_parameter (untyped_listener_lines ! 2) = None
   \<and> re_search classes_re (untyped_listener_lines ! 1) = None
   \<and> re_search listener_class_re (untyped_listener_lines ! 1) = None
   \<and> parse_listener untyped_listener_lines 1 ''AuditListener.java'' [] ''AuditListener'' False
       = Inr None
   \<and> find_listeners (join [newline] untyped_listener_lines) ''AuditListener.java'' []
       ''AuditListener'' False = []"
  using untyped_marker untyped_method_line untyped_no_parameter untyped_no_classes
    untyped_no_class parse_untyped_listener find_untyped_listeners
  by blast

text \<open>
  C6, amended. When the method line of a marker is found and no event type can be
  resolved, neither from the parameters of the method nor from a class reference in the
  marker line, the parse returns no record: the listener is not emitted.
\<close>

theorem unresolved_listener_dropped:
  assumes "start_line < length lines"
    and "find_method_line lines start_line = Some method_line"
    and "extract_event_from_parameter (lines ! method_line) = None"
    and "re_search classes_re (lines ! start_line) = None"
    and "re_search listener_class_re (lines ! start_line) = None"
  shows "parse_listener lines start_line file_path package class_name has_class_async = Inr None"
  using assms
  by (simp add: parse_listener_def Let_def split: option.splits)

theorem unresolved_listener_dropped_witness:
  "1 < length untyped_listener_lines
   \<and> find_method_line untyped_listener_lines 1 = Some 2
   \<and> extract_event_from_parameter (untyped_listener_lines ! 2) = None
   \<and> re_search classes_re (untyped_listener_lines ! 1) = None
   \<and> re_search listener_class_re (untyped_listener_lines ! 1) = None
   \<and> parse_listener untyped_listener_lines 1 ''AuditListener.java'' [] ''AuditListener'' True
       = Inr None"
proof -
  have h: "1 < length untyped_listener_lines"
    by (simp add: untyped_listener_lines_def)
  from unresolved_listener_dropped [OF h untyped_method_line untyped_no_parameter
      untyped_no_classes untyped_no_class, of "''AuditListener.java''" "[]" "''AuditListener''" True]
  show ?thesis
    using h untyped_method_line untyped_no_parameter untyped_no_classes untyped_no_class
    by blast
qed

end
